theory Spec2Isabelle
  imports Complex_Main "HOL-Library.Multiset" "HOL-Library.Sublist"
begin

section \<open>The iMessage bot of \<^verbatim>\<open>imessage-bot/bot.py\<close>\<close>

text \<open>
  The bot polls the Messages database, remembers the ROWIDs it has handled in the global
  set \<^verbatim>\<open>processed_messages\<close>, keeps one transcript per phone number in the global
  dictionary \<^verbatim>\<open>conversations\<close>, asks the Anthropic API for a reply and sends the reply
  with \<^verbatim>\<open>osascript\<close>.

  The two globals are the fields of a state record that every function takes and returns.
  What lies outside the program (the database file, the clock, the API, the
  \<^verbatim>\<open>osascript\<close> process, the environment variable) is a parameter of the model, so every
  theorem holds for all behaviours of the outside.
\<close>

subsection \<open>Data\<close>

text \<open>A turn is the dictionary \<^verbatim>\<open>{"role": ..., "content": ...}\<close> of lines 100 and 115.\<close>

datatype role = User | Assistant

record turn =
  role :: role
  content :: string

text \<open>
  A row of the table \<^verbatim>\<open>message\<close> of \<^verbatim>\<open>chat.db\<close>, with the columns the query reads. SQL
  \<^verbatim>\<open>NULL\<close> in the column \<^verbatim>\<open>text\<close> (the field \<open>message_text\<close>) is \<open>None\<close>. The table
  \<^verbatim>\<open>handle\<close> maps its primary key \<^verbatim>\<open>ROWID\<close> to the column \<^verbatim>\<open>id\<close>, the phone number.
\<close>

record message =
  ROWID :: int
  message_text :: "string option"
  date :: int
  is_from_me :: int
  handle_id :: int

record database =
  message_table :: "message list"
  handle_table :: "int \<rightharpoonup> string"

text \<open>
  A fetched row is the tuple \<^verbatim>\<open>(ROWID, text, date, is_from_me, phone)\<close> that the cursor
  returns and that line 136 unpacks.
\<close>

type_synonym row = "int \<times> string \<times> int \<times> int \<times> string"

fun rowid_of :: "row \<Rightarrow> int" where
  "rowid_of (rowid, body, sent, from_me, phone) = rowid"

fun text_of :: "row \<Rightarrow> string" where
  "text_of (rowid, body, sent, from_me, phone) = body"

fun date_of :: "row \<Rightarrow> int" where
  "date_of (rowid, body, sent, from_me, phone) = sent"

fun is_from_me_of :: "row \<Rightarrow> int" where
  "is_from_me_of (rowid, body, sent, from_me, phone) = from_me"

fun phone_of :: "row \<Rightarrow> string" where
  "phone_of (rowid, body, sent, from_me, phone) = phone"

text \<open>
  The exceptions that reach an \<^verbatim>\<open>except\<close> clause of the program: the \<^verbatim>\<open>ValueError\<close> of
  line 35, an error raised by the API client, the \<^verbatim>\<open>IndexError\<close> of \<^verbatim>\<open>response.content[0]\<close>
  on an empty content list, and an error of \<^verbatim>\<open>sqlite3\<close>.
\<close>

datatype exn =
    ValueError string
  | APIError string
  | IndexError
  | OperationalError string

text \<open>
  \<^verbatim>\<open>subprocess.run(..., check=True)\<close> on a launched process has two outcomes: the process
  exits with status 0 and the call returns, or it exits with another status and the call
  raises \<^verbatim>\<open>CalledProcessError\<close>, which carries the captured standard error (kept here as
  the text that \<^verbatim>\<open>decode()\<close> gives).
\<close>

datatype run_result = Completed | CalledProcessError string

text \<open>
  The lines the program prints; the decoration of each line is left out. A string is a
  list of bytes here and a sequence of code points in Python: \<^verbatim>\<open>message[:50]\<close> in the line
  \<open>SentTo\<close> is the only place where the two differ, and no claim reads it.
\<close>

datatype log =
    Starting
  | Found nat
  | Watching
  | NewMessage string string
  | Response string
  | ErrorGettingResponse exn
  | SentTo string string
  | FailedToSend string
  | TickError exn
  | Blank

text \<open>
  What the program does to the outside and to the ledger, in the order in which it does
  it: \<open>Add\<close> is \<^verbatim>\<open>processed_messages.add\<close>, \<open>Print\<close> a printed line, \<open>Create\<close> the call
  \<^verbatim>\<open>client.messages.create\<close> with the history it is given, \<open>Run\<close> the call of
  \<^verbatim>\<open>osascript\<close> with the script it is given. The trace of a run lists these, each with
  the row that the \<^verbatim>\<open>for\<close> loop of \<^verbatim>\<open>main\<close> is handling at that moment (\<open>None\<close> outside
  the loops).
\<close>

datatype effect =
    is_Add: Add
  | is_Print: Print log
  | is_Create: Create "turn list"
  | is_Run: Run string

type_synonym entry = "row option \<times> effect"

record state =
  processed_messages :: "int set"
  conversations :: "string \<rightharpoonup> turn list"
  trace :: "entry list"

text \<open>
  The outside during one run: the environment variable read at line 21, the API and
  \<^verbatim>\<open>osascript\<close>. The last two answer a request depending on the request and on the moment
  of the call, given as the length of the trace when the loop takes up the message, so
  that the same request may succeed for one message and fail for another. The content of
  a response is the list of the texts of its blocks.
\<close>

record world =
  ANTHROPIC_API_KEY :: "string option"
  messages_create :: "nat \<Rightarrow> turn list \<Rightarrow> exn + string list"
  osascript :: "nat \<Rightarrow> string \<Rightarrow> run_result"

text \<open>
  The outside at one call of \<^verbatim>\<open>get_new_messages\<close>: the database, or the error that
  opening or querying it raises, and the value of \<^verbatim>\<open>time.time()\<close>, seconds since 1970.
  Python's floating-point numbers are read as the rational numbers they stand for.
\<close>

record poll =
  chat_db :: "exn + database"
  clock :: rat

subsection \<open>\<^verbatim>\<open>get_anthropic_client\<close>\<close>

text \<open>\<^verbatim>\<open>not ANTHROPIC_API_KEY\<close> holds for an unset variable and for the empty string.\<close>

definition get_anthropic_client :: "string option \<Rightarrow> exn + string" where
  "get_anthropic_client key =
     (case key of
        None \<Rightarrow> Inl (ValueError ''ANTHROPIC_API_KEY environment variable not set'')
      | Some k \<Rightarrow>
          if k = [] then Inl (ValueError ''ANTHROPIC_API_KEY environment variable not set'')
          else Inr k)"

subsection \<open>\<^verbatim>\<open>send_imessage\<close>\<close>

text \<open>\<^verbatim>\<open>s.replace(c, new)\<close> for a one-character \<^verbatim>\<open>c\<close>.\<close>

definition replace :: "char \<Rightarrow> string \<Rightarrow> string \<Rightarrow> string" where
  "replace c new s = concat (map (\<lambda>x. if x = c then new else [x]) s)"

text \<open>Line 41: a double quote becomes \<^verbatim>\<open>\"\<close>, then an apostrophe becomes \<^verbatim>\<open>'"'"'\<close>.\<close>

definition escape :: "string \<Rightarrow> string" where
  "escape message =
     replace (CHR 0x27) [CHR 0x27, CHR 0x22, CHR 0x27, CHR 0x22, CHR 0x27]
       (replace (CHR 0x22) [CHR 0x5C, CHR 0x22] message)"

text \<open>Lines 43 to 49: the text before, between and after the two holes of the script.\<close>

definition script_head :: string where
  "script_head =
     [CHR 0x0A] @ ''    tell application \"Messages\"'' @
     [CHR 0x0A] @ ''        set targetService to 1st account whose service type = iMessage'' @
     [CHR 0x0A] @ ''        set targetBuddy to participant \"''"

definition script_mid :: string where
  "script_mid = ''\" of targetService'' @ [CHR 0x0A] @ ''        send \"''"

definition script_tail :: string where
  "script_tail =
     ''\" to targetBuddy'' @ [CHR 0x0A] @ ''    end tell'' @ [CHR 0x0A] @ ''    ''"

definition script :: "string \<Rightarrow> string \<Rightarrow> string" where
  "script phone message = script_head @ phone @ script_mid @ escape message @ script_tail"

text \<open>
  \<^verbatim>\<open>send_imessage\<close> reads and writes no global. It is given the behaviour of
  \<^verbatim>\<open>osascript\<close> at the moment of the call and returns what it did and its result.
\<close>

definition send_imessage :: "(string \<Rightarrow> run_result) \<Rightarrow> string \<Rightarrow> string \<Rightarrow> effect list \<times> bool" where
  "send_imessage run phone message =
     (case run (script phone message) of
        Completed \<Rightarrow>
          ([Run (script phone message), Print (SentTo phone (take 50 message))], True)
      | CalledProcessError stderr \<Rightarrow>
          ([Run (script phone message), Print (FailedToSend stderr)], False))"

subsection \<open>\<^verbatim>\<open>get_new_messages\<close>\<close>

text \<open>\<^verbatim>\<open>FROM message JOIN handle ON message.handle_id = handle.ROWID\<close>\<close>

definition joined :: "database \<Rightarrow> (message \<times> string) list" where
  "joined db =
     concat (map (\<lambda>m. case handle_table db (handle_id m) of
                         None \<Rightarrow> []
                       | Some phone \<Rightarrow> [(m, phone)])
                 (message_table db))"

text \<open>
  The \<^verbatim>\<open>WHERE\<close> clause and the \<^verbatim>\<open>SELECT\<close> list, for the parameter \<open>since\<close> of the query.
\<close>

fun selected :: "rat \<Rightarrow> message \<times> string \<Rightarrow> row option" where
  "selected since (m, phone) =
     (case message_text m of
        None \<Rightarrow> None
      | Some t \<Rightarrow>
          if is_from_me m = 0 \<and> of_int (date m) > since
          then Some (ROWID m, t, date m, is_from_me m, phone)
          else None)"

text \<open>
  The whole query. \<^verbatim>\<open>ORDER BY message.date DESC\<close> is a stable sort: SQL leaves the order
  of rows of equal date open, and the order of the table, which is any order, decides it
  here. \<^verbatim>\<open>LIMIT 20\<close> keeps the first twenty.
\<close>

definition query :: "database \<Rightarrow> rat \<Rightarrow> row list" where
  "query db since =
     take 20 (sort_key (\<lambda>r. - date_of r) (List.map_filter (selected since) (joined db)))"

text \<open>Line 83, for the value \<open>t\<close> of \<^verbatim>\<open>time.time()\<close>.\<close>

definition five_min_ago :: "rat \<Rightarrow> rat" where
  "five_min_ago t = (t - 978307200 - 300) * 1000000000"

definition get_new_messages :: "poll \<Rightarrow> exn + row list" where
  "get_new_messages p =
     (case chat_db p of
        Inl e \<Rightarrow> Inl e
      | Inr db \<Rightarrow> Inr (query db (five_min_ago (clock p))))"

subsection \<open>\<^verbatim>\<open>get_ai_response\<close>\<close>

text \<open>
  \<^verbatim>\<open>get_ai_response\<close> changes the global \<^verbatim>\<open>conversations\<close> and calls the API. It is given
  the key, the behaviour of the API at the moment of the call and the dictionary, and
  returns the dictionary as it leaves it, what it did, and its result or the exception
  it raises. \<^verbatim>\<open>xs[-20:]\<close> is the last twenty elements of \<^verbatim>\<open>xs\<close>, all of them when there are
  fewer.
\<close>

definition get_ai_response ::
  "string option \<Rightarrow> (turn list \<Rightarrow> exn + string list) \<Rightarrow> (string \<rightharpoonup> turn list) \<Rightarrow>
   string \<Rightarrow> string \<Rightarrow> ((string \<rightharpoonup> turn list) \<times> effect list) \<times> (exn + string)" where
  "get_ai_response key create convs phone message =
     (case get_anthropic_client key of
        Inl e \<Rightarrow> ((convs, []), Inl e)
      | Inr client \<Rightarrow>
          let stored = (case convs phone of None \<Rightarrow> [] | Some c \<Rightarrow> c);
              appended = stored @ [\<lparr>role = User, content = message\<rparr>];
              history = drop (length appended - 20) appended
          in (case create history of
                Inl e \<Rightarrow> ((convs(phone \<mapsto> appended), [Create history]), Inl e)
              | Inr [] \<Rightarrow> ((convs(phone \<mapsto> appended), [Create history]), Inl IndexError)
              | Inr (assistant_message # _) \<Rightarrow>
                  ((convs(phone \<mapsto> appended @ [\<lparr>role = Assistant, content = assistant_message\<rparr>]),
                    [Create history]),
                   Inr assistant_message)))"

subsection \<open>\<^verbatim>\<open>main\<close>\<close>

definition emit :: "row option \<Rightarrow> effect list \<Rightarrow> state \<Rightarrow> state" where
  "emit who effs st = st\<lparr>trace := trace st @ map (Pair who) effs\<rparr>"

definition fallback :: string where
  "fallback = ''Sorry, I'm having trouble right now. Try again in a moment!''"

text \<open>
  The body of the \<^verbatim>\<open>for\<close> loop of lines 136 to 156. Both branches of the inner \<^verbatim>\<open>try\<close> end
  in a call of \<^verbatim>\<open>send_imessage\<close>, which raises nothing, so the body raises nothing.
\<close>

definition process :: "world \<Rightarrow> state \<Rightarrow> row \<Rightarrow> state" where
  "process w st r =
     (if rowid_of r \<in> processed_messages st then st
      else
        let t = length (trace st);
            st1 = emit (Some r) [Add, Print (NewMessage (phone_of r) (text_of r))]
                    (st\<lparr>processed_messages := insert (rowid_of r) (processed_messages st)\<rparr>);
            ((convs, effs), result) =
               get_ai_response (ANTHROPIC_API_KEY w) (messages_create w t)
                 (conversations st1) (phone_of r) (text_of r);
            st2 = emit (Some r) effs (st1\<lparr>conversations := convs\<rparr>)
        in (case result of
              Inr response \<Rightarrow>
                emit (Some r)
                  (Print (Response response) #
                   fst (send_imessage (osascript w t) (phone_of r) response) @ [Print Blank])
                  st2
            | Inl e \<Rightarrow>
                emit (Some r)
                  (Print (ErrorGettingResponse e) #
                   fst (send_imessage (osascript w t) (phone_of r) fallback) @ [Print Blank])
                  st2))"

text \<open>
  One turn of the \<^verbatim>\<open>while\<close> loop, lines 133 to 159: an exception of the fetch is printed and
  the turn ends.
\<close>

definition tick :: "world \<Rightarrow> state \<Rightarrow> poll \<Rightarrow> state" where
  "tick w st p =
     (case get_new_messages p of
        Inl e \<Rightarrow> emit None [Print (TickError e)] st
      | Inr messages \<Rightarrow> foldl (process w) st messages)"

text \<open>Lines 120 to 130: the first fetch, whose rows are added to the ledger and nothing else.\<close>

definition initial :: state where
  "initial = \<lparr>processed_messages = {}, conversations = Map.empty, trace = []\<rparr>"

definition skip :: "state \<Rightarrow> row \<Rightarrow> state" where
  "skip st msg =
     emit (Some msg) [Add] (st\<lparr>processed_messages := insert (rowid_of msg) (processed_messages st)\<rparr>)"

definition startup :: "row list \<Rightarrow> state" where
  "startup existing =
     emit None [Print (Found (length existing)), Print Watching]
       (foldl skip (emit None [Print Starting] initial) existing)"

text \<open>
  \<^verbatim>\<open>main\<close>, for the first fetch \<open>p0\<close> and the fetches \<open>ps\<close> of the turns of the loop that
  have run so far. The first fetch is outside every \<^verbatim>\<open>try\<close>: its exception ends the
  process. The loop itself has no exit.
\<close>

definition main :: "world \<Rightarrow> poll \<Rightarrow> poll list \<Rightarrow> exn + state" where
  "main w p0 ps =
     (case get_new_messages p0 of
        Inl e \<Rightarrow> Inl e
      | Inr existing \<Rightarrow> Inr (foldl (tick w) (startup existing) ps))"

subsection \<open>Notions used in the statements and the proofs\<close>

text \<open>The stored turns of a sender: none for a sender the dictionary does not know.\<close>

definition conversation :: "state \<Rightarrow> string \<Rightarrow> turn list" where
  "conversation st phone = (case conversations st phone of None \<Rightarrow> [] | Some c \<Rightarrow> c)"

text \<open>An entry of the trace is about the message \<open>i\<close> when the row being handled has that ROWID.\<close>

definition about :: "int \<Rightarrow> entry \<Rightarrow> bool" where
  "about i x = (case fst x of None \<Rightarrow> False | Some r \<Rightarrow> rowid_of r = i)"



text \<open>
  A list of turns made of exchanges: each exchange is a user turn alone, or a user turn
  with the assistant turn that answers it. In \<open>alternates\<close> every exchange has its answer.
\<close>

fun exchanges :: "turn list \<Rightarrow> bool" where
  "exchanges [] = True"
| "exchanges [u] = (role u = User)"
| "exchanges (u # a # ts) =
     (role u = User \<and> (if role a = Assistant then exchanges ts else exchanges (a # ts)))"

fun alternates :: "turn list \<Rightarrow> bool" where
  "alternates [] = True"
| "alternates [u] = False"
| "alternates (u # a # ts) = (role u = User \<and> role a = Assistant \<and> alternates ts)"


text \<open>
  Not part of the program: how AppleScript, the language of the script, reads a string
  literal. The literal ends at the first double quote that no backslash precedes, and a
  backslash takes the character after it along; an apostrophe is an ordinary character.
  The function is given the text after the opening quote and returns the text of the
  literal as it is written and the text that follows the closing quote, or \<open>None\<close> when
  no quote closes the literal.
\<close>

fun string_literal :: "string \<Rightarrow> (string \<times> string) option" where
  "string_literal [] = None"
| "string_literal (c # cs) =
     (if c = CHR 0x22 then Some ([], cs)
      else if c = CHR 0x5C then
        (case cs of
           [] \<Rightarrow> None
         | d # ds \<Rightarrow> map_option (\<lambda>(body, rest). (c # d # body, rest)) (string_literal ds))
      else map_option (\<lambda>(body, rest). (c # body, rest)) (string_literal cs))"

subsection \<open>Inputs for the examples\<close>

text \<open>
  A database with one sender. At the time \<open>978307500\<close> the parameter of the query is
  \<open>0\<close>, so the rows of positive date are the recent ones; the row 4 is five seconds
  older than that.
\<close>

definition db_mixed :: database where
  "db_mixed =
     \<lparr>message_table =
        [\<lparr>ROWID = 1, message_text = Some ''hi'', date = 5, is_from_me = 0, handle_id = 1\<rparr>,
         \<lparr>ROWID = 2, message_text = None, date = 6, is_from_me = 0, handle_id = 1\<rparr>,
         \<lparr>ROWID = 3, message_text = Some ''yo'', date = 7, is_from_me = 1, handle_id = 1\<rparr>,
         \<lparr>ROWID = 4, message_text = Some ''old'', date = - 5000000000, is_from_me = 0,
           handle_id = 1\<rparr>],
      handle_table = [1 \<mapsto> ''+15550100'']\<rparr>"

definition poll_mixed :: poll where
  "poll_mixed = \<lparr>chat_db = Inr db_mixed, clock = 978307500\<rparr>"

definition db_empty_text :: database where
  "db_empty_text =
     \<lparr>message_table =
        [\<lparr>ROWID = 1, message_text = Some [], date = 1, is_from_me = 0, handle_id = 1\<rparr>],
      handle_table = [1 \<mapsto> ''+15550100'']\<rparr>"

definition poll_empty_text :: poll where
  "poll_empty_text = \<lparr>chat_db = Inr db_empty_text, clock = 978307500\<rparr>"

text \<open>
  Worlds in which the key is set: the API answers, or \<^verbatim>\<open>osascript\<close> fails. A row from the
  sender of the databases above, and a state in which that sender has 25 stored turns.
\<close>

definition world_ok :: world where
  "world_ok =
     \<lparr>ANTHROPIC_API_KEY = Some ''sk'', messages_create = (\<lambda>t h. Inr [''Hello!'']),
      osascript = (\<lambda>t s. Completed)\<rparr>"


definition row_hi :: row where
  "row_hi = (1, ''hi'', 5, 0, ''+15550100'')"


text \<open>Worlds in which the API fails and in which the key is not set; a database without rows.\<close>

definition world_api_down :: world where
  "world_api_down =
     \<lparr>ANTHROPIC_API_KEY = Some ''sk'', messages_create = (\<lambda>t h. Inl (APIError ''overloaded'')),
      osascript = (\<lambda>t s. Completed)\<rparr>"

definition world_no_key :: world where
  "world_no_key =
     \<lparr>ANTHROPIC_API_KEY = None, messages_create = (\<lambda>t h. Inr [''Hello!'']),
      osascript = (\<lambda>t s. Completed)\<rparr>"

definition poll_none :: poll where
  "poll_none = \<lparr>chat_db = Inr \<lparr>message_table = [], handle_table = Map.empty\<rparr>, clock = 978307500\<rparr>"

text \<open>The state after a startup that finds nothing and two turns that fetch the same row.\<close>

definition run_twice :: state where
  "run_twice = foldl (tick world_ok) (startup []) [poll_mixed, poll_mixed]"



section \<open>Properties\<close>

subsection \<open>The query\<close>

lemma selected_SomeD:
  "selected since (m, phone) = Some r \<Longrightarrow>
     rowid_of r = ROWID m \<and> message_text m = Some (text_of r) \<and> date_of r = date m \<and>
     is_from_me_of r = 0 \<and> phone_of r = phone \<and> since < of_int (date_of r)"
  by (auto split: option.splits if_splits)

lemma in_joined:
  "(m, phone) \<in> set (joined db) \<longleftrightarrow>
     m \<in> set (message_table db) \<and> handle_table db (handle_id m) = Some phone"
  by (auto simp: joined_def split: option.splits)

lemma in_query:
  assumes "r \<in> set (query db since)"
  shows "\<exists>m phone. m \<in> set (message_table db) \<and> handle_table db (handle_id m) = Some phone \<and>
           selected since (m, phone) = Some r"
proof -
  from assms have "r \<in> set (List.map_filter (selected since) (joined db))"
    unfolding query_def by (auto dest: in_set_takeD)
  then obtain m phone where "(m, phone) \<in> set (joined db)" "selected since (m, phone) = Some r"
    by (auto simp: List.map_filter_def)
  then show ?thesis using in_joined by blast
qed

lemma length_query: "length (query db since) \<le> 20"
  by (simp add: query_def)


lemma get_new_messages_query:
  "get_new_messages p = Inr rows \<Longrightarrow>
     \<exists>db. chat_db p = Inr db \<and> rows = query db (five_min_ago (clock p))"
  by (auto simp: get_new_messages_def split: sum.splits)

lemma query_mixed: "query db_mixed 0 = [(1, ''hi'', 5, 0, ''+15550100'')]"
  by (simp add: db_mixed_def query_def joined_def List.map_filter_def)

subsection \<open>The body of the loop\<close>

lemma process_seen: "rowid_of r \<in> processed_messages st \<Longrightarrow> process w st r = st"
  by (simp add: process_def)



lemma process_new_eq:
  assumes "rowid_of r \<notin> processed_messages st"
    and "get_ai_response (ANTHROPIC_API_KEY w) (messages_create w (length (trace st)))
       (conversations st) (phone_of r) (text_of r) = ((convs, effs), result)"
  shows "process w st r =
     st\<lparr>processed_messages := insert (rowid_of r) (processed_messages st),
        conversations := convs,
        trace := trace st @ map (Pair (Some r))
          ([Add, Print (NewMessage (phone_of r) (text_of r))] @ effs @
           [Print (case result of Inr response \<Rightarrow> Response response | Inl e \<Rightarrow> ErrorGettingResponse e)] @
           fst (send_imessage (osascript w (length (trace st))) (phone_of r)
                  (case result of Inr response \<Rightarrow> response | Inl e \<Rightarrow> fallback)) @
           [Print Blank])\<rparr>"
  using assms by (cases result) (simp_all add: process_def Let_def emit_def)



lemma ai_convs:
  assumes "get_ai_response key create convs phone message = ((convs', effs), result)"
  shows "(\<forall>q. q \<noteq> phone \<longrightarrow> convs' q = convs q) \<and>
    (let stored = (case convs phone of None \<Rightarrow> [] | Some c \<Rightarrow> c);
         appended = stored @ [\<lparr>role = User, content = message\<rparr>]
     in (effs = [] \<and> convs' = convs \<and> (\<exists>e. result = Inl e) \<and> get_anthropic_client key = Inl (ValueError ''ANTHROPIC_API_KEY environment variable not set'')) \<or>
        (effs = [Create (drop (length appended - 20) appended)] \<and> (\<exists>k. get_anthropic_client key = Inr k) \<and>
          ((\<exists>e. result = Inl e \<and> convs' phone = Some appended) \<or>
           (\<exists>a. result = Inr a \<and> convs' phone = Some (appended @ [\<lparr>role = Assistant, content = a\<rparr>])))))"
  using assms
  by (auto simp: get_ai_response_def get_anthropic_client_def Let_def split: sum.splits list.splits option.splits if_splits)


lemma process_ai:
  obtains "rowid_of r \<in> processed_messages st" "process w st r = st"
  | convs effs result where "rowid_of r \<notin> processed_messages st"
      "get_ai_response (ANTHROPIC_API_KEY w) (messages_create w (length (trace st)))
         (conversations st) (phone_of r) (text_of r) = ((convs, effs), result)"
      "conversations (process w st r) = convs"
      "drop (length (trace st)) (trace (process w st r)) = map (Pair (Some r))
          ([Add, Print (NewMessage (phone_of r) (text_of r))] @ effs @
           [Print (case result of Inr response \<Rightarrow> Response response | Inl e \<Rightarrow> ErrorGettingResponse e)] @
           fst (send_imessage (osascript w (length (trace st))) (phone_of r)
                  (case result of Inr response \<Rightarrow> response | Inl e \<Rightarrow> fallback)) @
           [Print Blank])"
proof (cases "rowid_of r \<in> processed_messages st")
  case True
  then show ?thesis using that(1) process_seen by blast
next
  case False
  obtain convs effs result where g:
    "get_ai_response (ANTHROPIC_API_KEY w) (messages_create w (length (trace st)))
       (conversations st) (phone_of r) (text_of r) = ((convs, effs), result)"
    by (metis prod.exhaust)
  show ?thesis
    by (rule that(2)[OF False g]) (simp_all add: process_new_eq[OF False g])
qed

lemma foldl_invariant:
  "P s \<Longrightarrow> (\<And>s x. P s \<Longrightarrow> x \<in> set xs \<Longrightarrow> P (f s x)) \<Longrightarrow> P (foldl f s xs)"
  by (induction xs arbitrary: s) auto






subsection \<open>The run\<close>

lemma foldl_skip:
  "foldl skip s rows =
     s\<lparr>processed_messages := processed_messages s \<union> rowid_of ` set rows,
       trace := trace s @ map (\<lambda>r. (Some r, Add)) rows\<rparr>"
  by (induction rows arbitrary: s) (auto simp: skip_def emit_def)

lemma startup_eq:
  "startup existing =
     \<lparr>processed_messages = rowid_of ` set existing, conversations = Map.empty,
      trace = (None, Print Starting) # map (\<lambda>r. (Some r, Add)) existing @
              [(None, Print (Found (length existing))), (None, Print Watching)]\<rparr>"
  by (simp add: startup_def foldl_skip emit_def initial_def)

lemma main_invariant:
  assumes "main w p0 ps = Inr st"
    and init: "\<And>existing. get_new_messages p0 = Inr existing \<Longrightarrow> P (startup existing)"
    and step: "\<And>s r p rows. P s \<Longrightarrow> p \<in> set ps \<Longrightarrow> get_new_messages p = Inr rows \<Longrightarrow>
                 r \<in> set rows \<Longrightarrow> P (process w s r)"
    and err: "\<And>s e. P s \<Longrightarrow> P (emit None [Print (TickError e)] s)"
  shows "P st"
proof -
  from assms(1) obtain existing where e: "get_new_messages p0 = Inr existing"
    and st: "st = foldl (tick w) (startup existing) ps"
    by (auto simp: main_def split: sum.splits)
  have "P (foldl (tick w) (startup existing) ps)"
  proof (rule foldl_invariant[where P = P])
    show "P (startup existing)" by (rule init[OF e])
  next
    fix s p assume s: "P s" and p: "p \<in> set ps"
    show "P (tick w s p)"
    proof (cases "get_new_messages p")
      case (Inl e)
      with s show ?thesis by (simp add: tick_def err)
    next
      case (Inr rows)
      have "P (foldl (process w) s rows)"
        by (rule foldl_invariant[where P = P, OF s]) (rule step[OF _ p Inr])
      with Inr show ?thesis by (simp add: tick_def)
    qed
  qed
  with st show ?thesis by simp
qed

lemma about_Some [simp]: "about i (Some r, e) \<longleftrightarrow> rowid_of r = i"
  by (simp add: about_def)

lemma about_None [simp]: "\<not> about i (None, e)"
  by (simp add: about_def)























lemma fetch_none: "get_new_messages poll_none = Inr []"
  by (simp add: poll_none_def get_new_messages_def query_def joined_def List.map_filter_def)

lemma fetch_mixed: "get_new_messages poll_mixed = Inr [row_hi]"
  by (simp add: poll_mixed_def get_new_messages_def five_min_ago_def query_mixed row_hi_def)

lemma main_twice: "main world_ok poll_none [poll_mixed, poll_mixed] = Inr run_twice"
  by (simp add: main_def fetch_none run_twice_def)


lemma exchanges_user:
  "exchanges ts \<Longrightarrow> exchanges (ts @ [\<lparr>role = User, content = m\<rparr>])"
  by (induction ts rule: exchanges.induct) (auto split: if_splits)

lemma exchanges_pair:
  "exchanges ts \<Longrightarrow>
     exchanges (ts @ [\<lparr>role = User, content = m\<rparr>, \<lparr>role = Assistant, content = a\<rparr>])"
  by (induction ts rule: exchanges.induct) (auto split: if_splits)

lemma alternates_pair:
  "alternates ts \<Longrightarrow>
     alternates (ts @ [\<lparr>role = User, content = m\<rparr>, \<lparr>role = Assistant, content = a\<rparr>])"
  by (induction ts rule: alternates.induct) auto

lemma process_conversation:
  obtains "rowid_of r \<in> processed_messages st" "process w st r = st"
  | e where "rowid_of r \<notin> processed_messages st"
      "get_anthropic_client (ANTHROPIC_API_KEY w) = Inl e"
      "conversations (process w st r) = conversations st"
  | k e h where "rowid_of r \<notin> processed_messages st"
      "get_anthropic_client (ANTHROPIC_API_KEY w) = Inr k"
      "messages_create w (length (trace st)) h = Inl e \<or> messages_create w (length (trace st)) h = Inr []"
      "conversations (process w st r) = (conversations st)(phone_of r \<mapsto>
          conversation st (phone_of r) @ [\<lparr>role = User, content = text_of r\<rparr>])"
  | k a as h where "rowid_of r \<notin> processed_messages st"
      "get_anthropic_client (ANTHROPIC_API_KEY w) = Inr k"
      "messages_create w (length (trace st)) h = Inr (a # as)"
      "conversations (process w st r) = (conversations st)(phone_of r \<mapsto>
          conversation st (phone_of r) @
            [\<lparr>role = User, content = text_of r\<rparr>, \<lparr>role = Assistant, content = a\<rparr>])"
proof (cases rule: process_ai[of r st w])
  case 1
  then show ?thesis using that(1) by blast
next
  case (2 convs effs result)
  show ?thesis
  proof (cases "get_anthropic_client (ANTHROPIC_API_KEY w)")
    case (Inl e)
    with 2(2) have "convs = conversations st" by (simp add: get_ai_response_def)
    with that(2)[OF 2(1) Inl] 2(3) show ?thesis by simp
  next
    case (Inr k)
    let ?c = "conversation st (phone_of r) @ [\<lparr>role = User, content = text_of r\<rparr>]"
    let ?h = "drop (length ?c - 20) ?c"
    show ?thesis
    proof (cases "messages_create w (length (trace st)) ?h")
      case (Inl e)
      with 2(2) Inr have "convs = (conversations st)(phone_of r \<mapsto> ?c)"
        by (auto simp: get_ai_response_def conversation_def Let_def)
      with that(3)[OF 2(1) Inr, of ?h e] Inl 2(3) show ?thesis by simp
    next
      case c: (Inr content)
      show ?thesis
      proof (cases content)
        case Nil
        with c 2(2) Inr have "convs = (conversations st)(phone_of r \<mapsto> ?c)"
          by (auto simp: get_ai_response_def conversation_def Let_def)
        with that(3)[OF 2(1) Inr, of ?h] c Nil 2(3) show ?thesis by simp
      next
        case (Cons a as)
        with c 2(2) Inr have "convs = (conversations st)(phone_of r \<mapsto>
            ?c @ [\<lparr>role = Assistant, content = a\<rparr>])"
          by (auto simp: get_ai_response_def conversation_def Let_def)
        with that(4)[OF 2(1) Inr, of ?h a as] c Cons 2(3) show ?thesis by simp
      qed
    qed
  qed
qed


lemma process_exchanges:
  assumes "\<forall>q. exchanges (conversation st q)"
  shows "\<forall>q. exchanges (conversation (process w st r) q)"
proof (cases rule: process_conversation[of r st w])
  case 1
  with assms show ?thesis by simp
next
  case (2 e)
  with assms show ?thesis by (simp add: conversation_def)
next
  case (3 k e h)
  have "exchanges (conversation (process w st r) q)" for q
    using assms[rule_format, of q] assms[rule_format, of "phone_of r"]
    by (cases "q = phone_of r") (simp_all add: conversation_def 3(4) exchanges_user)
  then show ?thesis by blast
next
  case (4 k a as h)
  have "exchanges (conversation (process w st r) q)" for q
    using assms[rule_format, of q] assms[rule_format, of "phone_of r"]
    by (cases "q = phone_of r") (simp_all add: conversation_def 4(4) exchanges_pair)
  then show ?thesis by blast
qed

lemma process_alternates:
  assumes "\<forall>q. alternates (conversation st q)"
    and "get_anthropic_client (ANTHROPIC_API_KEY w) = Inr k"
    and "\<forall>t h. \<exists>a as. messages_create w t h = Inr (a # as)"
  shows "\<forall>q. alternates (conversation (process w st r) q)"
proof (cases rule: process_conversation[of r st w])
  case 1
  with assms show ?thesis by simp
next
  case (2 e)
  with assms show ?thesis by simp
next
  case (3 k e h)
  with assms(3)[rule_format, of "length (trace st)" h] show ?thesis by auto
next
  case (4 k a as h)
  have "alternates (conversation (process w st r) q)" for q
    using assms(1)[rule_format, of q] assms(1)[rule_format, of "phone_of r"]
    by (cases "q = phone_of r") (simp_all add: conversation_def 4(4) alternates_pair)
  then show ?thesis by blast
qed

lemma conversation_twice:
  "conversation run_twice ''+15550100'' =
     [\<lparr>role = User, content = ''hi''\<rparr>, \<lparr>role = Assistant, content = ''Hello!''\<rparr>]"
  by (simp add: run_twice_def tick_def fetch_mixed startup_eq process_def world_ok_def row_hi_def
      Let_def emit_def get_ai_response_def get_anthropic_client_def send_imessage_def
      conversation_def)








subsection \<open>The claims about the query\<close>

text \<open>
  C7, as the claim has it, fails: the query asks for \<^verbatim>\<open>message.text IS NOT NULL\<close>, and the
  empty string is not \<^verbatim>\<open>NULL\<close>. A message whose text is empty is fetched.
\<close>

theorem fetch_returns_empty_text:
  "get_new_messages poll_empty_text = Inr [(1, [], 1, 0, ''+15550100'')]"
  by (simp add: poll_empty_text_def db_empty_text_def get_new_messages_def query_def
      joined_def five_min_ago_def List.map_filter_def)

text \<open>
  C7, amended: a fetch returns at most 20 rows, and every row it returns has
  \<^verbatim>\<open>is_from_me = 0\<close>, a date strictly greater than the parameter of the query, and the
  text of a row of the table \<^verbatim>\<open>message\<close> whose text is not \<^verbatim>\<open>NULL\<close> (it may be empty).
  \<^verbatim>\<open>get_new_messages\<close> runs this query with the parameter of line 83.
\<close>

theorem fetch_filters:
  "length (query db since) \<le> 20 \<and>
   (\<forall>r \<in> set (query db since).
      is_from_me_of r = 0 \<and> since < of_int (date_of r) \<and>
      (\<exists>m \<in> set (message_table db).
         ROWID m = rowid_of r \<and> message_text m = Some (text_of r) \<and> date m = date_of r \<and>
         handle_table db (handle_id m) = Some (phone_of r))) \<and>
   (\<forall>rows. get_new_messages p = Inr rows \<longrightarrow>
      (\<exists>db'. chat_db p = Inr db' \<and> rows = query db' (five_min_ago (clock p))))"
proof (intro conjI ballI allI impI)
  show "length (query db since) \<le> 20" by (rule length_query)
next
  fix r assume "r \<in> set (query db since)"
  then obtain m phone where m: "m \<in> set (message_table db)"
      "handle_table db (handle_id m) = Some phone" "selected since (m, phone) = Some r"
    using in_query by blast
  note s = selected_SomeD[OF m(3)]
  from s show "is_from_me_of r = 0" by simp
  from s show "since < of_int (date_of r)" by simp
  from s m(1,2) show "\<exists>m \<in> set (message_table db).
         ROWID m = rowid_of r \<and> message_text m = Some (text_of r) \<and> date m = date_of r \<and>
         handle_table db (handle_id m) = Some (phone_of r)"
    by (intro bexI[of _ m]) simp_all
next
  fix rows assume "get_new_messages p = Inr rows"
  then show "\<exists>db'. chat_db p = Inr db' \<and> rows = query db' (five_min_ago (clock p))"
    by (rule get_new_messages_query)
qed

theorem fetch_filters_witness:
  "get_new_messages poll_mixed = Inr [(1, ''hi'', 5, 0, ''+15550100'')] \<and>
   length (query db_mixed 0) \<le> 20 \<and>
   is_from_me_of (1, ''hi'', 5, 0, ''+15550100'') = 0 \<and>
   (0 :: rat) < of_int (date_of (1, ''hi'', 5, 0, ''+15550100''))"
proof -
  have g: "get_new_messages poll_mixed = Inr (query db_mixed 0)"
    by (simp add: poll_mixed_def get_new_messages_def five_min_ago_def)
  have "(1, ''hi'', 5, 0, ''+15550100'') \<in> set (query db_mixed 0)"
    by (simp add: query_mixed)
  with fetch_filters[of db_mixed 0 poll_mixed] g query_mixed
  show ?thesis by fastforce
qed

subsection \<open>The claims about one message\<close>










lemma process_api_down:
  "drop (length (trace initial)) (trace (process world_api_down initial row_hi)) =
     map (Pair (Some row_hi))
      [Add, Print (NewMessage ''+15550100'' ''hi''),
       Create [\<lparr>role = User, content = ''hi''\<rparr>],
       Print (ErrorGettingResponse (APIError ''overloaded'')), Run (script ''+15550100'' fallback),
       Print (SentTo ''+15550100'' (take 50 fallback)), Print Blank]"
  by (simp add: process_def initial_def world_api_down_def row_hi_def Let_def emit_def
      get_ai_response_def get_anthropic_client_def send_imessage_def)


text \<open>
  C2, as the claim has it, fails: nothing reads the key at startup. With the key unset,
  \<^verbatim>\<open>main\<close> finishes its startup, enters the loop, and handles the failure for the message
  of the first turn: it prints the error and sends the apology.
\<close>

theorem missing_key_enters_loop:
  "ANTHROPIC_API_KEY world_no_key = None \<and>
   (case main world_no_key poll_none [poll_mixed] of
      Inl e \<Rightarrow> False
    | Inr st \<Rightarrow>
        drop 3 (trace st) =
          map (Pair (Some row_hi))
            [Add, Print (NewMessage ''+15550100'' ''hi''),
             Print (ErrorGettingResponse (ValueError ''ANTHROPIC_API_KEY environment variable not set'')),
             Run (script ''+15550100'' fallback),
             Print (SentTo ''+15550100'' (take 50 fallback)), Print Blank])"
proof -
  have 0: "get_new_messages poll_none = Inr []"
    by (simp add: poll_none_def get_new_messages_def query_def joined_def List.map_filter_def)
  have 1: "get_new_messages poll_mixed = Inr [row_hi]"
    by (simp add: poll_mixed_def get_new_messages_def five_min_ago_def query_mixed row_hi_def)
  show ?thesis
    by (simp add: main_def tick_def 0 1 startup_def emit_def initial_def process_def
        world_no_key_def row_hi_def Let_def get_ai_response_def get_anthropic_client_def
        send_imessage_def)
qed

text \<open>
  C2, amended: \<^verbatim>\<open>get_anthropic_client\<close> raises \<^verbatim>\<open>ValueError\<close> exactly when the key is unset
  or empty. \<^verbatim>\<open>main\<close> ends with an exception only when its first fetch raises, whatever the
  key is. When the client cannot be made, the body of the loop handles the failure for the
  message at hand: it adds the message to the ledger, prints the error, sends the apology,
  and leaves the dictionary as it is.
\<close>

theorem missing_key_per_message:
  "(get_anthropic_client key = Inl (ValueError ''ANTHROPIC_API_KEY environment variable not set'')
      \<longleftrightarrow> key = None \<or> key = Some []) \<and>
   (main w p0 ps = Inl e \<longleftrightarrow> get_new_messages p0 = Inl e) \<and>
   (get_anthropic_client (ANTHROPIC_API_KEY w) = Inl e \<longrightarrow> rowid_of r \<notin> processed_messages st \<longrightarrow>
      process w st r =
        st\<lparr>processed_messages := insert (rowid_of r) (processed_messages st),
           trace := trace st @ map (Pair (Some r))
             ([Add, Print (NewMessage (phone_of r) (text_of r)), Print (ErrorGettingResponse e)] @
              fst (send_imessage (osascript w (length (trace st))) (phone_of r) fallback) @
              [Print Blank])\<rparr>)"
proof (intro conjI impI)
  show "get_anthropic_client key = Inl (ValueError ''ANTHROPIC_API_KEY environment variable not set'')
      \<longleftrightarrow> key = None \<or> key = Some []"
    by (auto simp: get_anthropic_client_def split: option.splits)
  show "main w p0 ps = Inl e \<longleftrightarrow> get_new_messages p0 = Inl e"
    by (auto simp: main_def split: sum.splits)
  assume k: "get_anthropic_client (ANTHROPIC_API_KEY w) = Inl e"
    and n: "rowid_of r \<notin> processed_messages st"
  from k have g: "get_ai_response (ANTHROPIC_API_KEY w) (messages_create w (length (trace st)))
           (conversations st) (phone_of r) (text_of r) = ((conversations st, []), Inl e)"
    by (simp add: get_ai_response_def)
  show "process w st r =
        st\<lparr>processed_messages := insert (rowid_of r) (processed_messages st),
           trace := trace st @ map (Pair (Some r))
             ([Add, Print (NewMessage (phone_of r) (text_of r)), Print (ErrorGettingResponse e)] @
              fst (send_imessage (osascript w (length (trace st))) (phone_of r) fallback) @
              [Print Blank])\<rparr>"
    by (simp add: process_new_eq[OF n g])
qed

theorem missing_key_per_message_witness:
  "get_anthropic_client (ANTHROPIC_API_KEY world_no_key) =
      Inl (ValueError ''ANTHROPIC_API_KEY environment variable not set'') \<and>
   rowid_of row_hi \<notin> processed_messages initial \<and>
   process world_no_key initial row_hi =
     initial\<lparr>processed_messages := insert (rowid_of row_hi) (processed_messages initial),
           trace := trace initial @ map (Pair (Some row_hi))
             ([Add, Print (NewMessage (phone_of row_hi) (text_of row_hi)),
               Print (ErrorGettingResponse (ValueError ''ANTHROPIC_API_KEY environment variable not set''))] @
              fst (send_imessage (osascript world_no_key (length (trace initial))) (phone_of row_hi) fallback) @
              [Print Blank])\<rparr>"
proof -
  have k: "get_anthropic_client (ANTHROPIC_API_KEY world_no_key) =
      Inl (ValueError ''ANTHROPIC_API_KEY environment variable not set'')"
    by (simp add: world_no_key_def get_anthropic_client_def)
  have n: "rowid_of row_hi \<notin> processed_messages initial"
    by (simp add: initial_def)
  from missing_key_per_message[of "ANTHROPIC_API_KEY world_no_key" world_no_key poll_none "[]"
      "ValueError ''ANTHROPIC_API_KEY environment variable not set''" row_hi initial] k n
  show ?thesis by blast
qed


subsection \<open>The claims about a run\<close>








text \<open>
  C8: the body of the loop appends to the sender's stored turns the user turn and the
  assistant turn, in this order, when \<^verbatim>\<open>get_ai_response\<close> returns; the user turn alone
  when the call of the API fails; nothing when no client can be made. So in every run the
  stored turns of every sender are a sequence of exchanges, and they alternate strictly
  when the key is set and no call of the API fails.
\<close>

theorem turns_alternate:
  "(rowid_of r \<notin> processed_messages st \<longrightarrow>
      (\<forall>convs effs response.
         get_ai_response (ANTHROPIC_API_KEY w) (messages_create w (length (trace st)))
           (conversations st) (phone_of r) (text_of r) = ((convs, effs), Inr response) \<longrightarrow>
         conversation (process w st r) (phone_of r) =
           conversation st (phone_of r) @
             [\<lparr>role = User, content = text_of r\<rparr>, \<lparr>role = Assistant, content = response\<rparr>]) \<and>
      (\<forall>convs effs e.
         get_ai_response (ANTHROPIC_API_KEY w) (messages_create w (length (trace st)))
           (conversations st) (phone_of r) (text_of r) = ((convs, effs), Inl e) \<longrightarrow>
         (effs = [] \<longrightarrow> conversation (process w st r) (phone_of r) = conversation st (phone_of r)) \<and>
         (effs \<noteq> [] \<longrightarrow> conversation (process w st r) (phone_of r) =
            conversation st (phone_of r) @ [\<lparr>role = User, content = text_of r\<rparr>]))) \<and>
   (main w p0 ps = Inr st' \<longrightarrow>
      exchanges (conversation st' q) \<and>
      ((\<exists>k. get_anthropic_client (ANTHROPIC_API_KEY w) = Inr k) \<and>
       (\<forall>t h. \<exists>a as. messages_create w t h = Inr (a # as)) \<longrightarrow>
       alternates (conversation st' q)))"
proof (intro conjI impI allI)
  fix convs effs response
  assume n: "rowid_of r \<notin> processed_messages st"
    and g: "get_ai_response (ANTHROPIC_API_KEY w) (messages_create w (length (trace st)))
           (conversations st) (phone_of r) (text_of r) = ((convs, effs), Inr response)"
  from ai_convs[OF g, unfolded Let_def, folded conversation_def]
  show "conversation (process w st r) (phone_of r) =
           conversation st (phone_of r) @
             [\<lparr>role = User, content = text_of r\<rparr>, \<lparr>role = Assistant, content = response\<rparr>]"
    by (auto simp: process_new_eq[OF n g] conversation_def)
next
  fix convs effs e
  assume n: "rowid_of r \<notin> processed_messages st"
    and g: "get_ai_response (ANTHROPIC_API_KEY w) (messages_create w (length (trace st)))
           (conversations st) (phone_of r) (text_of r) = ((convs, effs), Inl e)"
  note a = ai_convs[OF g, unfolded Let_def, folded conversation_def]
  show "conversation (process w st r) (phone_of r) = conversation st (phone_of r)" if "effs = []"
    using a that by (auto simp: process_new_eq[OF n g] conversation_def)
  show "conversation (process w st r) (phone_of r) =
            conversation st (phone_of r) @ [\<lparr>role = User, content = text_of r\<rparr>]" if "effs \<noteq> []"
    using a that by (auto simp: process_new_eq[OF n g] conversation_def)
next
  assume m: "main w p0 ps = Inr st'"
  have "\<forall>q. exchanges (conversation st' q)"
  proof (rule main_invariant[where P = "\<lambda>s. \<forall>q. exchanges (conversation s q)", OF m])
    fix existing show "\<forall>q. exchanges (conversation (startup existing) q)"
      by (simp add: startup_eq conversation_def)
  next
    fix s r show "\<forall>q. exchanges (conversation s q) \<Longrightarrow> \<forall>q. exchanges (conversation (process w s r) q)"
      by (rule process_exchanges)
  next
    fix s :: state and e
    show "\<forall>q. exchanges (conversation s q) \<Longrightarrow>
        \<forall>q. exchanges (conversation (emit None [Print (TickError e)] s) q)"
      by (simp add: emit_def conversation_def)
  qed
  then show "exchanges (conversation st' q)" by blast
next
  assume m: "main w p0 ps = Inr st'"
    and ok: "(\<exists>k. get_anthropic_client (ANTHROPIC_API_KEY w) = Inr k) \<and>
       (\<forall>t h. \<exists>a as. messages_create w t h = Inr (a # as))"
  then obtain k where k: "get_anthropic_client (ANTHROPIC_API_KEY w) = Inr k" by blast
  have "\<forall>q. alternates (conversation st' q)"
  proof (rule main_invariant[where P = "\<lambda>s. \<forall>q. alternates (conversation s q)", OF m])
    fix existing show "\<forall>q. alternates (conversation (startup existing) q)"
      by (simp add: startup_eq conversation_def)
  next
    fix s r show "\<forall>q. alternates (conversation s q) \<Longrightarrow> \<forall>q. alternates (conversation (process w s r) q)"
      using k ok by (intro process_alternates) blast+
  next
    fix s :: state and e
    show "\<forall>q. alternates (conversation s q) \<Longrightarrow>
        \<forall>q. alternates (conversation (emit None [Print (TickError e)] s) q)"
      by (simp add: emit_def conversation_def)
  qed
  then show "alternates (conversation st' q)" by blast
qed


theorem turns_alternate_witness:
  "main world_ok poll_none [poll_mixed, poll_mixed] = Inr run_twice \<and>
   get_anthropic_client (ANTHROPIC_API_KEY world_ok) = Inr ''sk'' \<and>
   conversation run_twice ''+15550100'' =
     [\<lparr>role = User, content = ''hi''\<rparr>, \<lparr>role = Assistant, content = ''Hello!''\<rparr>] \<and>
   exchanges (conversation run_twice ''+15550100'') \<and>
   alternates (conversation run_twice ''+15550100'')"
proof -
  have k: "get_anthropic_client (ANTHROPIC_API_KEY world_ok) = Inr ''sk''"
    by (simp add: world_ok_def get_anthropic_client_def)
  have ok: "\<forall>t h. \<exists>a as. messages_create world_ok t h = Inr (a # as)"
    by (simp add: world_ok_def)
  from turns_alternate[of row_hi initial world_ok poll_none "[poll_mixed, poll_mixed]" run_twice
      "''+15550100''"] main_twice k ok
  have "exchanges (conversation run_twice ''+15550100'')"
    "alternates (conversation run_twice ''+15550100'')"
    by blast+
  with main_twice k conversation_twice show ?thesis by blast
qed





subsection \<open>The claim about the script\<close>

text \<open>
  C3 at the body \<^verbatim>\<open>it's\<close>: line 41 turns the apostrophe into \<^verbatim>\<open>'"'"'\<close>, the script holds
  \<^verbatim>\<open>send "it'"'"'s" to targetBuddy\<close>, and the string literal that starts after \<^verbatim>\<open>send "\<close> ends
  at the first of the added double quotes: it is \<^verbatim>\<open>it'\<close>, and what follows it is not
  \<^verbatim>\<open> to targetBuddy\<close>.
\<close>

theorem apostrophe_ends_literal:
  "escape ''it's'' = ''it'\"'\"'s'' \<and>
   script ''+15550100'' ''it's'' =
     script_head @ ''+15550100'' @ script_mid @ ''it'\"'\"'s'' @ script_tail \<and>
   string_literal (escape ''it's'' @ script_tail) =
     Some ([CHR ''i'', CHR ''t'', CHR 0x27], [CHR 0x27, CHR 0x22, CHR 0x27, CHR ''s''] @ script_tail)"
  by (simp add: escape_def replace_def script_def script_tail_def)

end
